theory Spec2Isabelle
  imports Main "HOL-Library.Word" "HOL-Library.Char_ord"
begin

unbundle bit_operations_syntax

section \<open>The MP4 background-page server (src/server.js)\<close>

text \<open>
  The server is a set of stateless Express handlers around an S3-compatible bucket.
  Everything a handler reads from outside its arguments is a field of \<open>env\<close>:
  the two configuration strings the handlers use, the bytes the random source
  yields for this request, the clock, and the behaviour of the two S3 operations
  (\<open>s3.send(new PutObjectCommand(..))\<close> and \<open>getSignedUrl(..)\<close>), each of which either
  returns or throws. Everything a handler does to the bucket is recorded in
  \<open>s3_state\<close>: the objects written and the list of S3 calls issued, in order.

  A JavaScript string is modelled as \<open>string\<close>. The identifier pattern accepts ASCII
  characters only, so a code unit beyond Latin-1 is rejected exactly as any other
  character outside the class is.
\<close>

subsection \<open>Values thrown and caught\<close>

text \<open>
  A thrown value, reduced to what the handlers read of it: its \<open>message\<close> property
  (absent on a value that is not an \<open>Error\<close>) and its rendering by \<open>String(e)\<close>.
\<close>

datatype thrown = Thrown (message: "string option") (to_string: string)

text \<open>
  \<open>new Error(msg)\<close>; \<open>String\<close> of it is \<open>Error: msg\<close>, and plain \<open>Error\<close> when the message
  is empty.
\<close>

definition new_Error :: "string \<Rightarrow> thrown" where
  "new_Error msg = Thrown (Some msg) (if msg = [] then ''Error'' else ''Error: '' @ msg)"

text \<open>\<open>e?.message || dflt\<close>: an absent or empty message is falsy.\<close>

definition message_or :: "thrown \<Rightarrow> string \<Rightarrow> string" where
  "message_or e dflt =
     (case message e of
        None \<Rightarrow> dflt
      | Some m \<Rightarrow> if m = [] then dflt else m)"

subsection \<open>Requests, responses and the bucket\<close>

type_synonym byte = "8 word"

text \<open>
  The file part a client sends in the field \<open>file\<close> of the multipart request:
  \<open>part_filename\<close> is the file name multer reads from the part's disposition,
  \<open>part_content_type\<close> is the part's \<open>Content-Type\<close> header as the client declared it,
  \<open>part_data\<close> is the body.
\<close>

record file_part =
  part_filename :: string
  part_content_type :: string
  part_data :: "byte list"

text \<open>The file object multer hands to the filter and, as \<open>req.file\<close>, to the handler.\<close>

record upload_file =
  originalname :: string
  mimetype :: string
  buffer :: "byte list"

text \<open>The input of \<open>PutObjectCommand\<close> (lines 57-67).\<close>

record put_object_input =
  Bucket :: string
  Key :: string
  Body :: "byte list"
  ContentType :: string
  CacheControl :: string
  Metadata :: "(string \<times> string) list"

datatype s3_call =
    PutObject put_object_input
  | PresignGetObject string string nat  \<comment> \<open>bucket, key, \<open>expiresIn\<close>\<close>

record s3_state =
  objects :: "string \<rightharpoonup> put_object_input"
  calls :: "s3_call list"

text \<open>
  The handlers' surroundings.
  \<^item> \<open>reported_mimetype\<close> is multer's reading of a part's declared \<open>Content-Type\<close>
    header, the string it reports as \<open>file.mimetype\<close>: the media type in lower case,
    without parameters.
  \<^item> \<open>random_bytes\<close> are the 16 bytes the random source yields to
    \<open>crypto.randomUUID()\<close>, and \<open>now_iso\<close> is \<open>new Date().toISOString()\<close>.
  \<^item> \<open>s3_send_put\<close> is the outcome of sending a put: \<open>None\<close> when it resolves,
    \<open>Some e\<close> when it throws \<open>e\<close>.
  \<^item> \<open>getSignedUrl\<close> is the presigner on a \<open>GetObjectCommand\<close>: it is given the bucket,
    the key and \<open>expiresIn\<close>, and returns the URL or throws; it signs from the client's
    configuration and is not given the bucket's contents.
\<close>

record env =
  S3_BUCKET :: string
  PUBLIC_BASE_URL :: string
  reported_mimetype :: "string \<Rightarrow> string"
  random_bytes :: "byte list"
  now_iso :: string
  s3_send_put :: "put_object_input \<Rightarrow> thrown option"
  getSignedUrl :: "string \<Rightarrow> string \<Rightarrow> nat \<Rightarrow> thrown + string"

datatype page = UiPage | ViewPage string

datatype body =
    Send string
  | JsonError string
  | JsonUploaded string string  \<comment> \<open>\<open>{ id, url }\<close>\<close>
  | Html page
  | RedirectTo string

record response =
  status :: nat
  headers :: "(string \<times> string) list"
  body :: body

subsection \<open>\<open>validId\<close> (lines 113-115)\<close>

text \<open>
  The character class \<open>[0-9a-fA-F-]\<close>: three ranges of code points and the hyphen.
\<close>

definition id_class :: "char \<Rightarrow> bool" where
  "id_class c =
     ((CHR ''0'' \<le> c \<and> c \<le> CHR ''9'')
      \<or> (CHR ''a'' \<le> c \<and> c \<le> CHR ''f'')
      \<or> (CHR ''A'' \<le> c \<and> c \<le> CHR ''F'')
      \<or> c = CHR ''-'')"

text \<open>
  \<open>/^[0-9a-fA-F-]{20,}$/.test(id)\<close>: the pattern is anchored at both ends (no \<open>m\<close>
  flag), so the whole string is a run of at least 20 characters of the class.
\<close>

definition validId :: "string \<Rightarrow> bool" where
  "validId ident = (20 \<le> length ident \<and> list_all id_class ident)"

text \<open>
  The Identifier Format Predicate in the specification's words: 20 or more characters,
  each a hex digit or a hyphen.
\<close>

definition hex_digit_char :: "char \<Rightarrow> bool" where
  "hex_digit_char c = (c \<in> set ''0123456789abcdefABCDEF'')"

definition identifier_format :: "string \<Rightarrow> bool" where
  "identifier_format ident =
     (20 \<le> length ident \<and> (\<forall>c \<in> set ident. hex_digit_char c \<or> c = CHR ''-''))"

subsection \<open>\<open>crypto.randomUUID\<close> (called at line 53)\<close>

text \<open>
  Node's \<open>crypto.randomUUID()\<close> returns an RFC 4122 version 4 UUID: it takes 16 bytes
  from the random source, overwrites the high nibble of byte 6 with the version \<open>4\<close> and
  the two high bits of byte 8 with the variant \<open>10\<close>, and prints the bytes as lower-case
  hex pairs in the groups 8-4-4-4-12.
\<close>

definition hex_digit :: "nat \<Rightarrow> char" where
  "hex_digit n = ''0123456789abcdef'' ! n"

definition kHexBytes :: "byte \<Rightarrow> string" where
  "kHexBytes b = [hex_digit (unat b div 16), hex_digit (unat b mod 16)]"

definition randomUUID :: "byte list \<Rightarrow> string" where
  "randomUUID buf =
     kHexBytes (buf ! 0) @ kHexBytes (buf ! 1) @ kHexBytes (buf ! 2) @ kHexBytes (buf ! 3)
     @ ''-'' @ kHexBytes (buf ! 4) @ kHexBytes (buf ! 5)
     @ ''-'' @ kHexBytes ((buf ! 6 AND 0x0f) OR 0x40) @ kHexBytes (buf ! 7)
     @ ''-'' @ kHexBytes ((buf ! 8 AND 0x3f) OR 0x80) @ kHexBytes (buf ! 9)
     @ ''-'' @ kHexBytes (buf ! 10) @ kHexBytes (buf ! 11) @ kHexBytes (buf ! 12)
     @ kHexBytes (buf ! 13) @ kHexBytes (buf ! 14) @ kHexBytes (buf ! 15)"

subsection \<open>The upload middleware (lines 34-41) and the error middleware (lines 106-108)\<close>

definition fileSize_limit :: nat where
  "fileSize_limit = 250 * 1024 * 1024"

text \<open>\<open>fileFilter\<close>: \<open>Some e\<close> is \<open>cb(e)\<close>, \<open>None\<close> is \<open>cb(null, true)\<close>.\<close>

definition fileFilter :: "upload_file \<Rightarrow> thrown option" where
  "fileFilter file =
     (if mimetype file \<noteq> ''video/mp4'' then Some (new_Error ''Only video/mp4 allowed'')
      else None)"

text \<open>
  \<open>upload.single("file")\<close> on a request whose field \<open>file\<close> carries at most one file part.
  multer is a library, modelled by what it does with such a part. A part without a file
  name is skipped: no file is attached and \<open>req.file\<close> stays undefined. Otherwise multer
  builds the file object, with the name it read and the type it reports for the declared
  \<open>Content-Type\<close>, and runs the filter on it before it reads the body; then it buffers
  the body in memory and fails with its \<open>LIMIT_FILE_SIZE\<close> error when the body is larger
  than \<open>limits.fileSize\<close>, by its documentation the maximum file size in bytes (so a
  body of exactly that size passes here; releases of multer differ on that one size, and
  the source names no release).
  \<open>Inl e\<close> is \<open>next(e)\<close>; \<open>Inr f\<close> is \<open>next()\<close> with \<open>req.file = f\<close> (\<open>None\<close>: undefined).
\<close>

definition LIMIT_FILE_SIZE :: thrown where
  "LIMIT_FILE_SIZE = Thrown (Some ''File too large'') ''MulterError: File too large''"

definition multer_file :: "env \<Rightarrow> file_part \<Rightarrow> upload_file" where
  "multer_file e part =
     \<lparr>originalname = part_filename part,
      mimetype = reported_mimetype e (part_content_type part),
      buffer = part_data part\<rparr>"

definition upload_single :: "env \<Rightarrow> file_part option \<Rightarrow> thrown + upload_file option" where
  "upload_single e field =
     (case field of
        None \<Rightarrow> Inr None
      | Some part \<Rightarrow>
          if part_filename part = [] then Inr None
          else
            (case fileFilter (multer_file e part) of
               Some err \<Rightarrow> Inl err
             | None \<Rightarrow>
                 if fileSize_limit < length (part_data part) then Inl LIMIT_FILE_SIZE
                 else Inr (Some (multer_file e part))))"

definition error_middleware :: "thrown \<Rightarrow> response" where
  "error_middleware err =
     \<lparr>status = 400, headers = [], body = JsonError (message_or err ''Bad request'')\<rparr>"

subsection \<open>\<open>POST /upload\<close> (lines 49-75)\<close>

text \<open>\<open>s.replace(/\/+$/, "")\<close>: the trailing run of slashes is removed.\<close>

definition strip_trailing_slashes :: "string \<Rightarrow> string" where
  "strip_trailing_slashes s = rev (dropWhile (\<lambda>c. c = CHR ''/'') (rev s))"

text \<open>\<open>(name || "video.mp4").slice(0, 200)\<close>\<close>

definition metadata_name :: "string \<Rightarrow> string" where
  "metadata_name name = take 200 (if name = [] then ''video.mp4'' else name)"

text \<open>The input object of \<open>new PutObjectCommand({..})\<close> (lines 57-67).\<close>

definition put_command :: "env \<Rightarrow> string \<Rightarrow> upload_file \<Rightarrow> put_object_input" where
  "put_command e key file =
     \<lparr>Bucket = S3_BUCKET e,
      Key = key,
      Body = buffer file,
      ContentType = ''video/mp4'',
      CacheControl = ''public, max-age=31536000, immutable'',
      Metadata = [(''originalname'', metadata_name (originalname file)),
                  (''uploadedat'', now_iso e)]\<rparr>"

definition upload_handler :: "env \<Rightarrow> s3_state \<Rightarrow> upload_file option \<Rightarrow> response \<times> s3_state" where
  "upload_handler e st req_file =
     (case req_file of
        None \<Rightarrow> (\<lparr>status = 400, headers = [], body = JsonError ''Missing file''\<rparr>, st)
      | Some file \<Rightarrow>
          let ident = randomUUID (random_bytes e);
              key = ident @ ''.mp4'';
              cmd = put_command e key file;
              st1 = st\<lparr>calls := calls st @ [PutObject cmd]\<rparr>
          in (case s3_send_put e cmd of
                Some err \<Rightarrow>
                  (\<lparr>status = 500, headers = [],
                    body = JsonError (message_or err (to_string err))\<rparr>, st1)
              | None \<Rightarrow>
                  let pageUrl = strip_trailing_slashes (PUBLIC_BASE_URL e) @ ''/v/'' @ ident
                  in (\<lparr>status = 200, headers = [], body = JsonUploaded ident pageUrl\<rparr>,
                      st1\<lparr>objects := (objects st1)(key \<mapsto> cmd)\<rparr>)))"

text \<open>The route: the middleware, then the handler or the error middleware.\<close>

definition post_upload :: "env \<Rightarrow> s3_state \<Rightarrow> file_part option \<Rightarrow> response \<times> s3_state" where
  "post_upload e st field =
     (case upload_single e field of
        Inl err \<Rightarrow> (error_middleware err, st)
      | Inr req_file \<Rightarrow> upload_handler e st req_file)"

subsection \<open>\<open>GET /v/:id\<close> (lines 77-84) and \<open>GET /raw/:id\<close> (lines 86-104)\<close>

definition html_headers :: "(string \<times> string) list" where
  "html_headers = [(''content-type'', ''text/html; charset=utf-8''), (''cache-control'', ''no-store'')]"

definition get_v :: "s3_state \<Rightarrow> string \<Rightarrow> response \<times> s3_state" where
  "get_v st ident =
     (if \<not> validId ident then (\<lparr>status = 400, headers = [], body = Send ''Bad id''\<rparr>, st)
      else (\<lparr>status = 200, headers = html_headers, body = Html (ViewPage ident)\<rparr>, st))"

definition get_raw :: "env \<Rightarrow> s3_state \<Rightarrow> string \<Rightarrow> response \<times> s3_state" where
  "get_raw e st ident =
     (if \<not> validId ident then (\<lparr>status = 400, headers = [], body = Send ''Bad id''\<rparr>, st)
      else
        let key = ident @ ''.mp4'';
            st1 = st\<lparr>calls := calls st @ [PresignGetObject (S3_BUCKET e) key (60 * 10)]\<rparr>
        in (case getSignedUrl e (S3_BUCKET e) key (60 * 10) of
              Inr signedUrl \<Rightarrow>
                (\<lparr>status = 302, headers = [(''cache-control'', ''no-store'')],
                  body = RedirectTo signedUrl\<rparr>, st1)
            | Inl err \<Rightarrow> (\<lparr>status = 404, headers = [], body = Send ''Not found''\<rparr>, st1)))"

subsection \<open>Notions used to state the properties\<close>

text \<open>The key an S3 call addresses.\<close>

fun call_key :: "s3_call \<Rightarrow> string" where
  "call_key (PutObject cmd) = Key cmd"
| "call_key (PresignGetObject bucket key ttl) = key"

text \<open>The S3 calls a handler added to the log, given the states before and after it.\<close>

definition new_calls :: "s3_state \<Rightarrow> s3_state \<Rightarrow> s3_call list" where
  "new_calls st st' = drop (length (calls st)) (calls st')"

text \<open>The specification's mapping from an Upload Identifier to its object key.\<close>

definition object_key :: "string \<Rightarrow> string" where
  "object_key ident = ident @ ''.mp4''"

text \<open>
  The bits of a 16-byte draw that reach the identifier: every bit but the high nibble of
  byte 6 and the two high bits of byte 8.
\<close>

definition surviving_bits :: "byte list \<Rightarrow> byte list" where
  "surviving_bits buf = buf[6 := buf ! 6 AND 0x0f, 8 := buf ! 8 AND 0x3f]"

text \<open>A lower-case hex digit, as the identifier generator prints them.\<close>

definition lower_hex :: "char \<Rightarrow> bool" where
  "lower_hex c = (c \<in> set ''0123456789abcdef'')"

subsection \<open>A concrete deployment, for the examples\<close>

definition empty_bucket :: s3_state where
  "empty_bucket = \<lparr>objects = Map.empty, calls = []\<rparr>"

text \<open>
  The media type of a header of the form \<open>type/subtype\<close> or \<open>type/subtype;parameters\<close>:
  the text before the first semicolon, in lower case.
\<close>

definition ascii_lower :: "char \<Rightarrow> char" where
  "ascii_lower c =
     (case map_of (zip ''ABCDEFGHIJKLMNOPQRSTUVWXYZ'' ''abcdefghijklmnopqrstuvwxyz'') c of
        Some l \<Rightarrow> l
      | None \<Rightarrow> c)"

definition media_type :: "string \<Rightarrow> string" where
  "media_type header = map ascii_lower (takeWhile (\<lambda>c. c \<noteq> CHR 0x3B) header)"

text \<open>
  A deployment whose multer reports that media type, with a store that accepts every
  write and a signer that signs every key.
\<close>

definition example_env :: env where
  "example_env =
     \<lparr>S3_BUCKET = ''videos'',
      PUBLIC_BASE_URL = ''https://bg.example/'',
      reported_mimetype = media_type,
      random_bytes = [0, 1, 2, 3, 4, 5, 6, 7, 8, 9, 10, 11, 12, 13, 14, 15],
      now_iso = ''2026-01-01T00:00:00.000Z'',
      s3_send_put = (\<lambda>cmd. None),
      getSignedUrl = (\<lambda>bucket key ttl.
         Inr (''https://s3.example/'' @ bucket @ ''/'' @ key @ ''?X-Amz-Signature=5d1e''))\<rparr>"

text \<open>The same deployment with a signer that throws.\<close>

definition unreachable_env :: env where
  "unreachable_env =
     example_env\<lparr>getSignedUrl := (\<lambda>bucket key ttl. Inl (new_Error ''connect ECONNREFUSED''))\<rparr>"

definition example_part :: file_part where
  "example_part =
     \<lparr>part_filename = ''clip.mp4'', part_content_type = ''video/mp4'',
      part_data = [0, 0, 0, 24]\<rparr>"

section \<open>Properties\<close>

subsection \<open>The identifier pattern\<close>

lemma le_char_nat: "(a::char) \<le> b \<longleftrightarrow> (of_char a :: nat) \<le> of_char b"
  by (simp only: less_eq_char_def)

lemma id_class_iff: "id_class c \<longleftrightarrow> hex_digit_char c \<or> c = CHR ''-''"
proof -
  obtain n :: nat where n: "n = of_char c" by simp
  have eq: "\<And>d. (c = d) = (n = of_char d)" using n by (metis of_char_eq_iff)
  show ?thesis
    unfolding id_class_def hex_digit_char_def le_char_nat n[symmetric]
    by (simp add: eq) arith
qed

lemma validId_iff_format: "validId ident \<longleftrightarrow> identifier_format ident"
  by (simp add: validId_def identifier_format_def list_all_iff id_class_iff)

lemma format_fails_iff:
  "\<not> identifier_format ident \<longleftrightarrow>
     length ident < 20 \<or> (\<exists>c \<in> set ident. \<not> hex_digit_char c \<and> c \<noteq> CHR ''-'')"
  by (auto simp add: identifier_format_def)

text \<open>
  Claim C4. A path identifier that fails the Identifier Format Predicate (fewer than 20
  characters, or some character that is neither a hex digit nor a hyphen) gets the
  response 400 from both \<open>GET /v/{id}\<close> and \<open>GET /raw/{id}\<close>, and the bucket state,
  the list of S3 calls included, is left as it was: no object-store operation is made.
\<close>

theorem malformed_id_rejected:
  assumes "length ident < 20 \<or> (\<exists>c \<in> set ident. \<not> hex_digit_char c \<and> c \<noteq> CHR ''-'')"
  shows "get_v st ident = (\<lparr>status = 400, headers = [], body = Send ''Bad id''\<rparr>, st)
       \<and> get_raw e st ident = (\<lparr>status = 400, headers = [], body = Send ''Bad id''\<rparr>, st)"
proof -
  from assms have "\<not> validId ident"
    by (simp only: validId_iff_format format_fails_iff)
  then show ?thesis
    by (simp add: get_v_def get_raw_def)
qed

theorem malformed_id_rejected_witness:
  "length ''ab'' < 20
   \<and> (\<exists>c \<in> set ''0123456789abcdef-xyz-0123456789''. \<not> hex_digit_char c \<and> c \<noteq> CHR ''-'')
   \<and> get_v empty_bucket ''ab''
       = (\<lparr>status = 400, headers = [], body = Send ''Bad id''\<rparr>, empty_bucket)
   \<and> get_raw example_env empty_bucket ''ab''
       = (\<lparr>status = 400, headers = [], body = Send ''Bad id''\<rparr>, empty_bucket)
   \<and> get_v empty_bucket ''0123456789abcdef-xyz-0123456789''
       = (\<lparr>status = 400, headers = [], body = Send ''Bad id''\<rparr>, empty_bucket)
   \<and> get_raw example_env empty_bucket ''0123456789abcdef-xyz-0123456789''
       = (\<lparr>status = 400, headers = [], body = Send ''Bad id''\<rparr>, empty_bucket)"
proof -
  have short: "length ''ab'' < 20"
    by simp
  have alien: "\<exists>c \<in> set ''0123456789abcdef-xyz-0123456789''. \<not> hex_digit_char c \<and> c \<noteq> CHR ''-''"
    by (simp add: hex_digit_char_def)
  note a = malformed_id_rejected [OF disjI1, OF short, of empty_bucket example_env]
  note b = malformed_id_rejected [OF disjI2, OF alien, of empty_bucket example_env]
  from short alien a b show ?thesis
    by (intro conjI) (erule conjunct1 conjunct2 | assumption)+
qed

subsection \<open>Raw playback\<close>

text \<open>
  Claim C10. The pattern asks for no hex digit: a string of 20 or more hyphens is a
  valid identifier, and \<open>GET /raw/{id}\<close> on it is not answered with 400 but goes on to
  ask for a signed URL for the key made of the hyphens and \<open>.mp4\<close> (for twenty hyphens,
  the key \<open>--------------------.mp4\<close>).
\<close>

theorem hyphens_only_id_accepted:
  assumes "20 \<le> n"
  shows "validId (replicate n (CHR ''-''))
       \<and> status (fst (get_raw e st (replicate n (CHR ''-'')))) \<noteq> 400
       \<and> calls (snd (get_raw e st (replicate n (CHR ''-''))))
           = calls st @ [PresignGetObject (S3_BUCKET e) (replicate n (CHR ''-'') @ ''.mp4'') 600]"
proof -
  have v: "validId (replicate n (CHR ''-''))"
    using assms by (simp add: validId_def list_all_iff id_class_def)
  show ?thesis
    using v by (simp add: get_raw_def Let_def split: sum.split)
qed

theorem hyphens_only_id_accepted_witness:
  "validId ''--------------------''
   \<and> get_raw example_env empty_bucket ''--------------------''
     = (\<lparr>status = 302, headers = [(''cache-control'', ''no-store'')],
         body = RedirectTo ''https://s3.example/videos/--------------------.mp4?X-Amz-Signature=5d1e''\<rparr>,
        \<lparr>objects = Map.empty,
         calls = [PresignGetObject ''videos'' ''--------------------.mp4'' 600]\<rparr>)"
proof -
  have r: "replicate 20 (CHR ''-'') = ''--------------------''"
    by (simp add: numeral_eq_Suc)
  have "(20::nat) \<le> 20" by simp
  from hyphens_only_id_accepted [OF this, of example_env empty_bucket]
  have v: "validId ''--------------------''" unfolding r by simp
  then show ?thesis
    by (simp add: get_raw_def example_env_def empty_bucket_def)
qed

text \<open>
  Claim C7. For a valid identifier the raw playback handler asks for exactly one signed
  URL, for the key \<open>id + ".mp4"\<close> with \<open>expiresIn\<close> equal to 600 seconds, and the URL
  the signer returns is the target of the 302 redirect it answers with.
\<close>

theorem raw_signs_for_600_seconds:
  assumes "validId ident"
  shows "calls (snd (get_raw e st ident))
           = calls st @ [PresignGetObject (S3_BUCKET e) (ident @ ''.mp4'') 600]
       \<and> (\<forall>url. getSignedUrl e (S3_BUCKET e) (ident @ ''.mp4'') 600 = Inr url \<longrightarrow>
            fst (get_raw e st ident)
              = \<lparr>status = 302, headers = [(''cache-control'', ''no-store'')], body = RedirectTo url\<rparr>)"
  using assms by (simp add: get_raw_def Let_def split: sum.split)

theorem raw_signs_for_600_seconds_witness:
  "validId ''00010203-0405-4607-8809-0a0b0c0d0e0f''
   \<and> getSignedUrl example_env (S3_BUCKET example_env)
         (''00010203-0405-4607-8809-0a0b0c0d0e0f'' @ ''.mp4'') 600
        = Inr ''https://s3.example/videos/00010203-0405-4607-8809-0a0b0c0d0e0f.mp4?X-Amz-Signature=5d1e''
   \<and> get_raw example_env empty_bucket ''00010203-0405-4607-8809-0a0b0c0d0e0f''
       = (\<lparr>status = 302, headers = [(''cache-control'', ''no-store'')],
           body = RedirectTo ''https://s3.example/videos/00010203-0405-4607-8809-0a0b0c0d0e0f.mp4?X-Amz-Signature=5d1e''\<rparr>,
          \<lparr>objects = Map.empty,
           calls = [PresignGetObject ''videos'' ''00010203-0405-4607-8809-0a0b0c0d0e0f.mp4'' 600]\<rparr>)"
proof -
  let ?i = "''00010203-0405-4607-8809-0a0b0c0d0e0f''"
  let ?u = "''https://s3.example/videos/00010203-0405-4607-8809-0a0b0c0d0e0f.mp4?X-Amz-Signature=5d1e''"
  have v: "validId ?i"
    by (simp add: validId_def id_class_def)
  have s: "getSignedUrl example_env (S3_BUCKET example_env) (?i @ ''.mp4'') 600 = Inr ?u"
    by (simp add: example_env_def)
  note r = raw_signs_for_600_seconds [OF v, of example_env empty_bucket]
  from r s have "fst (get_raw example_env empty_bucket ?i)
      = \<lparr>status = 302, headers = [(''cache-control'', ''no-store'')], body = RedirectTo ?u\<rparr>"
    by blast
  moreover from r have "calls (snd (get_raw example_env empty_bucket ?i))
      = [PresignGetObject ''videos'' ''00010203-0405-4607-8809-0a0b0c0d0e0f.mp4'' 600]"
    by (simp add: example_env_def empty_bucket_def)
  moreover have "objects (snd (get_raw example_env empty_bucket ?i)) = Map.empty"
    using v by (simp add: get_raw_def Let_def empty_bucket_def split: sum.split)
  ultimately show ?thesis
    using v s by (simp add: prod_eq_iff s3_state.equality)
qed

text \<open>
  Claim C1, as stated, fails: it says that \<open>GET /raw/{id}\<close> answers 404 for every valid
  identifier that was never uploaded. The handler never looks at the bucket. On the
  empty bucket, with a signer that signs (signing needs no existing object), a valid
  identifier is answered with the 302 redirect.
\<close>

theorem raw_unknown_id_counterexample:
  "validId ''00010203-0405-4607-8809-0a0b0c0d0e0f''
   \<and> objects empty_bucket (''00010203-0405-4607-8809-0a0b0c0d0e0f'' @ ''.mp4'') = None
   \<and> calls empty_bucket = []
   \<and> status (fst (get_raw example_env empty_bucket ''00010203-0405-4607-8809-0a0b0c0d0e0f'')) = 302
   \<and> status (fst (get_raw example_env empty_bucket ''00010203-0405-4607-8809-0a0b0c0d0e0f'')) \<noteq> 404"
proof -
  have v: "validId ''00010203-0405-4607-8809-0a0b0c0d0e0f''"
    by (simp add: validId_def id_class_def)
  then show ?thesis
    by (simp add: get_raw_def example_env_def empty_bucket_def)
qed

text \<open>
  Claim C1, amended. For every valid identifier, uploaded or not, \<open>GET /raw/{id}\<close>
  answers 404 exactly when the signing call throws, and then with the fixed text
  \<open>Not found\<close>, never the error thrown; otherwise it answers with the 302 redirect to
  the signed URL. The response is the same whatever the bucket holds.
\<close>

theorem raw_not_found_iff_signing_fails:
  assumes "validId ident"
  shows "(status (fst (get_raw e st ident)) = 404)
           = (\<exists>err. getSignedUrl e (S3_BUCKET e) (ident @ ''.mp4'') 600 = Inl err)
       \<and> (status (fst (get_raw e st ident)) = 404 \<longrightarrow>
            fst (get_raw e st ident) = \<lparr>status = 404, headers = [], body = Send ''Not found''\<rparr>)
       \<and> (status (fst (get_raw e st ident)) \<noteq> 404 \<longrightarrow>
            (\<exists>url. getSignedUrl e (S3_BUCKET e) (ident @ ''.mp4'') 600 = Inr url
               \<and> fst (get_raw e st ident)
                  = \<lparr>status = 302, headers = [(''cache-control'', ''no-store'')],
                     body = RedirectTo url\<rparr>))
       \<and> fst (get_raw e st ident) = fst (get_raw e st' ident)"
proof (cases "getSignedUrl e (S3_BUCKET e) (ident @ ''.mp4'') 600")
  case (Inl err)
  with assms show ?thesis
    by (simp add: get_raw_def Let_def)
next
  case (Inr url)
  with assms show ?thesis
    by (simp add: get_raw_def Let_def)
qed

theorem raw_not_found_iff_signing_fails_witness:
  "validId ''00010203-0405-4607-8809-0a0b0c0d0e0f''
   \<and> fst (get_raw unreachable_env empty_bucket ''00010203-0405-4607-8809-0a0b0c0d0e0f'')
       = \<lparr>status = 404, headers = [], body = Send ''Not found''\<rparr>
   \<and> fst (get_raw example_env empty_bucket ''00010203-0405-4607-8809-0a0b0c0d0e0f'')
       = \<lparr>status = 302, headers = [(''cache-control'', ''no-store'')],
          body = RedirectTo ''https://s3.example/videos/00010203-0405-4607-8809-0a0b0c0d0e0f.mp4?X-Amz-Signature=5d1e''\<rparr>"
proof -
  let ?i = "''00010203-0405-4607-8809-0a0b0c0d0e0f''"
  let ?u = "''https://s3.example/videos/00010203-0405-4607-8809-0a0b0c0d0e0f.mp4?X-Amz-Signature=5d1e''"
  have v: "validId ?i"
    by (simp add: validId_def id_class_def)
  have down: "\<exists>err. getSignedUrl unreachable_env (S3_BUCKET unreachable_env) (?i @ ''.mp4'') 600 = Inl err"
    by (simp add: unreachable_env_def)
  have up: "getSignedUrl example_env (S3_BUCKET example_env) (?i @ ''.mp4'') 600 = Inr ?u"
    by (simp add: example_env_def)
  note a = raw_not_found_iff_signing_fails [OF v, of unreachable_env empty_bucket empty_bucket]
  note b = raw_not_found_iff_signing_fails [OF v, of example_env empty_bucket empty_bucket]
  from a down have 1: "fst (get_raw unreachable_env empty_bucket ?i)
       = \<lparr>status = 404, headers = [], body = Send ''Not found''\<rparr>"
    by blast
  from b up have 2: "fst (get_raw example_env empty_bucket ?i)
       = \<lparr>status = 302, headers = [(''cache-control'', ''no-store'')], body = RedirectTo ?u\<rparr>"
    by (metis Inl_Inr_False sum.inject(2))
  from v 1 2 show ?thesis by blast
qed

subsection \<open>The identifier generator\<close>

lemma hex_digit_lower_hex: "n < 16 \<Longrightarrow> lower_hex (hex_digit n)"
  unfolding lower_hex_def hex_digit_def
  by (rule nth_mem) simp

lemma lower_hex_id_class: "lower_hex c \<Longrightarrow> id_class c"
  by (auto simp add: lower_hex_def id_class_iff hex_digit_char_def)

lemma kHexBytes_lower_hex: "list_all lower_hex (kHexBytes b)"
proof -
  have "unat b < 256"
    using unsigned_less [of b] by simp
  then have "unat b div 16 < 16" by simp
  then show ?thesis
    by (simp add: kHexBytes_def hex_digit_lower_hex)
qed

lemma kHexBytes_id_class: "list_all id_class (kHexBytes b)"
  using kHexBytes_lower_hex [of b] by (auto simp add: list_all_iff lower_hex_id_class)

lemma length_kHexBytes: "length (kHexBytes b) = 2"
  by (simp add: kHexBytes_def)

lemma length_randomUUID: "length (randomUUID buf) = 36"
  by (simp add: randomUUID_def length_kHexBytes)

lemma validId_randomUUID: "validId (randomUUID buf)"
  by (simp add: validId_def length_randomUUID) (simp add: randomUUID_def kHexBytes_id_class id_class_def)

lemma example_uuid: "randomUUID (random_bytes example_env) = ''00010203-0405-4607-8809-0a0b0c0d0e0f''"
  by (simp add: example_env_def randomUUID_def kHexBytes_def hex_digit_def)

lemma hex_digit_inj:
  assumes "m < 16" and "n < 16" and "hex_digit m = hex_digit n"
  shows "m = n"
proof -
  have d: "distinct ''0123456789abcdef''" by simp
  have l: "length ''0123456789abcdef'' = 16" by simp
  from assms show ?thesis
    unfolding hex_digit_def
    using nth_eq_iff_index_eq [OF d, of m n] l by simp
qed

lemma kHexBytes_inj [simp]: "(kHexBytes a = kHexBytes b) = (a = b)"
proof
  assume eq: "kHexBytes a = kHexBytes b"
  have la: "unat a < 256" using unsigned_less [of a] by simp
  have lb: "unat b < 256" using unsigned_less [of b] by simp
  from la have a1: "unat a div 16 < 16" by simp
  from lb have b1: "unat b div 16 < 16" by simp
  from eq have "hex_digit (unat a div 16) = hex_digit (unat b div 16)"
    and "hex_digit (unat a mod 16) = hex_digit (unat b mod 16)"
    by (simp_all add: kHexBytes_def)
  then have "unat a div 16 = unat b div 16" and "unat a mod 16 = unat b mod 16"
    using a1 b1 by (simp_all add: hex_digit_inj)
  then have "unat a = unat b"
    by (metis div_mult_mod_eq)
  then show "a = b" by (simp add: word_unat_eq_iff)
qed simp

lemma version_bits:
  fixes x y :: byte
  shows "((x AND 0x0f) OR 0x40 = (y AND 0x0f) OR 0x40) = (x AND 0x0f = y AND 0x0f)"
proof
  assume "(x AND 0x0f) OR 0x40 = (y AND 0x0f) OR 0x40"
  then have "((x AND 0x0f) OR 0x40) AND 0x0f = ((y AND 0x0f) OR 0x40) AND 0x0f"
    by simp
  then show "x AND 0x0f = y AND 0x0f"
    by (simp add: bit.conj_disj_distrib2 and.assoc)
qed simp

lemma variant_bits:
  fixes x y :: byte
  shows "((x AND 0x3f) OR 0x80 = (y AND 0x3f) OR 0x80) = (x AND 0x3f = y AND 0x3f)"
proof
  assume "(x AND 0x3f) OR 0x80 = (y AND 0x3f) OR 0x80"
  then have "((x AND 0x3f) OR 0x80) AND 0x3f = ((y AND 0x3f) OR 0x80) AND 0x3f"
    by simp
  then show "x AND 0x3f = y AND 0x3f"
    by (simp add: bit.conj_disj_distrib2 and.assoc)
qed simp

lemma upt_16: "[0..<16] = [0, 1, 2, 3, 4, 5, 6, 7, 8, 9, 10, 11, 12, 13, 14, 15::nat]"
  by code_simp

lemma sixteen_bytes:
  assumes "length (buf :: byte list) = 16"
  obtains b0 b1 b2 b3 b4 b5 b6 b7 b8 b9 b10 b11 b12 b13 b14 b15
  where "buf = [b0, b1, b2, b3, b4, b5, b6, b7, b8, b9, b10, b11, b12, b13, b14, b15]"
proof -
  from map_nth [of buf] assms have "map ((!) buf) [0..<16] = buf"
    by simp
  then have "buf = [buf ! 0, buf ! 1, buf ! 2, buf ! 3, buf ! 4, buf ! 5, buf ! 6, buf ! 7,
      buf ! 8, buf ! 9, buf ! 10, buf ! 11, buf ! 12, buf ! 13, buf ! 14, buf ! 15]"
    unfolding upt_16 by simp
  then show ?thesis by (rule that)
qed

lemma uuid_eq_iff:
  assumes "length a = 16" and "length b = 16"
  shows "(randomUUID a = randomUUID b) = (surviving_bits a = surviving_bits b)"
proof -
  from assms(1) obtain a0 a1 a2 a3 a4 a5 a6 a7 a8 a9 a10 a11 a12 a13 a14 a15
    where a: "a = [a0, a1, a2, a3, a4, a5, a6, a7, a8, a9, a10, a11, a12, a13, a14, a15]"
    by (rule sixteen_bytes)
  from assms(2) obtain b0 b1 b2 b3 b4 b5 b6 b7 b8 b9 b10 b11 b12 b13 b14 b15
    where b: "b = [b0, b1, b2, b3, b4, b5, b6, b7, b8, b9, b10, b11, b12, b13, b14, b15]"
    by (rule sixteen_bytes)
  have sa: "surviving_bits a = [a0, a1, a2, a3, a4, a5, a6 AND 0x0f, a7, a8 AND 0x3f, a9, a10, a11, a12, a13, a14, a15]"
    unfolding a surviving_bits_def by (simp add: numeral_eq_Suc)
  have sb: "surviving_bits b = [b0, b1, b2, b3, b4, b5, b6 AND 0x0f, b7, b8 AND 0x3f, b9, b10, b11, b12, b13, b14, b15]"
    unfolding b surviving_bits_def by (simp add: numeral_eq_Suc)
  have "(randomUUID a = randomUUID b) =
     (a0 = b0 \<and> a1 = b1 \<and> a2 = b2 \<and> a3 = b3 \<and> a4 = b4 \<and> a5 = b5
      \<and> (a6 AND 0x0f) OR 0x40 = (b6 AND 0x0f) OR 0x40 \<and> a7 = b7
      \<and> (a8 AND 0x3f) OR 0x80 = (b8 AND 0x3f) OR 0x80 \<and> a9 = b9
      \<and> a10 = b10 \<and> a11 = b11 \<and> a12 = b12 \<and> a13 = b13 \<and> a14 = b14 \<and> a15 = b15)"
    unfolding a b randomUUID_def by (simp add: length_kHexBytes)
  then show ?thesis
    unfolding sa sb by (simp add: version_bits variant_bits)
qed

lemma high_nibble: "unat (w :: byte) div 16 = unat (drop_bit 4 w)"
  by (simp add: drop_bit_eq_div unat_div)

lemma version_nibble: "unat (((x::byte) AND 0x0f) OR 0x40) div 16 = 4"
proof -
  have m: "(15::byte) = mask 4" by (simp add: mask_eq_exp_minus_1)
  have "drop_bit 4 ((x AND mask 4) OR push_bit 6 1) = (push_bit 2 1 :: byte)"
    by (rule bit_word_eqI) (auto simp add: bit_simps)
  then have "drop_bit 4 ((x AND 0x0f) OR 0x40) = (4 :: byte)"
    by (simp add: m)
  then show ?thesis by (simp add: high_nibble)
qed

lemma variant_nibble: "unat (((x::byte) AND 0x3f) OR 0x80) div 16 \<in> {8, 9, 10, 11}"
proof -
  have m: "(63::byte) = mask 6" by (simp add: mask_eq_exp_minus_1)
  have "drop_bit 6 ((x AND mask 6) OR push_bit 7 1) = (push_bit 1 1 :: byte)"
    by (rule bit_word_eqI) (auto simp add: bit_simps)
  then have "drop_bit 6 ((x AND 0x3f) OR 0x80) = (2 :: byte)"
    by (simp add: m)
  then have "unat (drop_bit 6 ((x AND 0x3f) OR 0x80)) = 2"
    by simp
  then have "unat ((x AND 0x3f) OR 0x80) div 64 = 2"
    by (simp add: drop_bit_eq_div unat_div)
  then show ?thesis by (simp add: insert_commute) arith
qed

lemma uuid_version_char: "randomUUID buf ! 14 = CHR ''4''"
  by (simp add: randomUUID_def kHexBytes_def version_nibble hex_digit_def)

lemma uuid_variant_char: "randomUUID buf ! 19 \<in> set ''89ab''"
  using variant_nibble [of "buf ! 8"]
  by (auto simp add: randomUUID_def kHexBytes_def hex_digit_def)

lemma uuid_groups:
  "\<exists>g1 g2 g3 g4 g5.
      randomUUID buf = g1 @ ''-'' @ g2 @ ''-'' @ g3 @ ''-'' @ g4 @ ''-'' @ g5
      \<and> length g1 = 8 \<and> length g2 = 4 \<and> length g3 = 4 \<and> length g4 = 4 \<and> length g5 = 12
      \<and> list_all lower_hex (g1 @ g2 @ g3 @ g4 @ g5)"
proof (intro exI conjI)
  show "randomUUID buf =
      (kHexBytes (buf ! 0) @ kHexBytes (buf ! 1) @ kHexBytes (buf ! 2) @ kHexBytes (buf ! 3))
      @ ''-'' @ (kHexBytes (buf ! 4) @ kHexBytes (buf ! 5))
      @ ''-'' @ (kHexBytes ((buf ! 6 AND 0x0f) OR 0x40) @ kHexBytes (buf ! 7))
      @ ''-'' @ (kHexBytes ((buf ! 8 AND 0x3f) OR 0x80) @ kHexBytes (buf ! 9))
      @ ''-'' @ (kHexBytes (buf ! 10) @ kHexBytes (buf ! 11) @ kHexBytes (buf ! 12)
         @ kHexBytes (buf ! 13) @ kHexBytes (buf ! 14) @ kHexBytes (buf ! 15))"
    by (simp add: randomUUID_def)
qed (simp_all add: length_kHexBytes kHexBytes_lower_hex)

text \<open>
  Claim C2, as stated, fails: it says that all 128 bits of the identifier are drawn from
  the random source and none is fixed by the format. Two draws that differ in the high
  nibble of byte 6 and in the two high bits of byte 8 give the same identifier.
\<close>

theorem uuid_fixed_bits_counterexample:
  "[0, 1, 2, 3, 4, 5, 6, 7, 8, 9, 10, 11, 12, 13, 14, 15 :: byte]
     \<noteq> [0, 1, 2, 3, 4, 5, 0xf6, 7, 0xc8, 9, 10, 11, 12, 13, 14, 15]
   \<and> randomUUID [0, 1, 2, 3, 4, 5, 6, 7, 8, 9, 10, 11, 12, 13, 14, 15]
       = ''00010203-0405-4607-8809-0a0b0c0d0e0f''
   \<and> randomUUID [0, 1, 2, 3, 4, 5, 0xf6, 7, 0xc8, 9, 10, 11, 12, 13, 14, 15]
       = ''00010203-0405-4607-8809-0a0b0c0d0e0f''"
  by (simp add: randomUUID_def kHexBytes_def hex_digit_def)

text \<open>
  Claim C2, amended. From a draw of 16 bytes the generator makes a string of lower-case
  hex digits in the hyphenated groups 8-4-4-4-12. The digit at index 14 is always \<open>4\<close>
  and the digit at index 19 is one of \<open>8\<close>, \<open>9\<close>, \<open>a\<close>, \<open>b\<close>; two draws give the same
  identifier exactly when they agree on the other 122 bits. So 122 of the 128 bits come
  from the random source and 6 are fixed by the format.
\<close>

theorem uuid_draws_122_bits:
  assumes "length a = 16" and "length b = 16"
  shows "(randomUUID a = randomUUID b) = (surviving_bits a = surviving_bits b)
       \<and> randomUUID a ! 14 = CHR ''4''
       \<and> randomUUID a ! 19 \<in> set ''89ab''
       \<and> (\<exists>g1 g2 g3 g4 g5.
            randomUUID a = g1 @ ''-'' @ g2 @ ''-'' @ g3 @ ''-'' @ g4 @ ''-'' @ g5
            \<and> length g1 = 8 \<and> length g2 = 4 \<and> length g3 = 4 \<and> length g4 = 4 \<and> length g5 = 12
            \<and> list_all lower_hex (g1 @ g2 @ g3 @ g4 @ g5))"
  using uuid_eq_iff [OF assms] uuid_version_char [of a] uuid_variant_char [of a] uuid_groups [of a]
  by (intro conjI)

theorem uuid_draws_122_bits_witness:
  "length [0, 1, 2, 3, 4, 5, 6, 7, 8, 9, 10, 11, 12, 13, 14, 15 :: byte] = 16
   \<and> length [0, 1, 2, 3, 4, 5, 0xf6, 7, 0xc8, 9, 10, 11, 12, 13, 14, 15 :: byte] = 16
   \<and> surviving_bits [0, 1, 2, 3, 4, 5, 6, 7, 8, 9, 10, 11, 12, 13, 14, 15]
       = surviving_bits [0, 1, 2, 3, 4, 5, 0xf6, 7, 0xc8, 9, 10, 11, 12, 13, 14, 15]
   \<and> randomUUID [0, 1, 2, 3, 4, 5, 6, 7, 8, 9, 10, 11, 12, 13, 14, 15]
       = randomUUID [0, 1, 2, 3, 4, 5, 0xf6, 7, 0xc8, 9, 10, 11, 12, 13, 14, 15]
   \<and> randomUUID [0, 1, 2, 3, 4, 5, 6, 7, 8, 9, 10, 11, 12, 13, 14, 15]
       = ''00010203-0405-4607-8809-0a0b0c0d0e0f''"
proof -
  let ?a = "[0, 1, 2, 3, 4, 5, 6, 7, 8, 9, 10, 11, 12, 13, 14, 15 :: byte]"
  let ?b = "[0, 1, 2, 3, 4, 5, 0xf6, 7, 0xc8, 9, 10, 11, 12, 13, 14, 15 :: byte]"
  have la: "length ?a = 16" and lb: "length ?b = 16"
    by simp_all
  have s: "surviving_bits ?a = surviving_bits ?b"
    by (simp add: surviving_bits_def numeral_eq_Suc) 
  from uuid_draws_122_bits [OF la lb] s have e: "randomUUID ?a = randomUUID ?b"
    by blast
  have v: "randomUUID ?a = ''00010203-0405-4607-8809-0a0b0c0d0e0f''"
    by (simp add: randomUUID_def kHexBytes_def hex_digit_def)
  from la lb s e v show ?thesis
    by (intro conjI)
qed

subsection \<open>Upload: what the middleware turns away\<close>

lemma example_reports_mp4: "reported_mimetype example_env ''video/mp4'' = ''video/mp4''"
  by (simp add: example_env_def media_type_def ascii_lower_def)

lemma unnamed_part_missing_file:
  assumes "part_filename part = []"
  shows "post_upload e st (Some part)
           = (\<lparr>status = 400, headers = [], body = JsonError ''Missing file''\<rparr>, st)"
  using assms by (simp add: post_upload_def upload_single_def upload_handler_def)

lemma passes_middleware:
  assumes "part_filename part \<noteq> []"
    and "reported_mimetype e (part_content_type part) = ''video/mp4''"
    and "length (part_data part) \<le> fileSize_limit"
  shows "post_upload e st (Some part) = upload_handler e st (Some (multer_file e part))"
  using assms by (simp add: post_upload_def upload_single_def fileFilter_def multer_file_def)

lemma example_put_accepted: "s3_send_put example_env cmd = None"
  by (simp add: example_env_def)

lemma upload_handler_calls:
  "calls (snd (upload_handler e st (Some file)))
     = calls st @ [PutObject (put_command e (randomUUID (random_bytes e) @ ''.mp4'') file)]"
  by (simp add: upload_handler_def Let_def split: option.split)

text \<open>
  Claim C5, as stated, fails: it says that every upload whose declared content type is
  not exactly \<open>video/mp4\<close> is turned away. The filter compares the type multer reports,
  which is the declared media type in lower case and without parameters: a part declared
  as \<open>VIDEO/MP4\<close> is accepted and its object is written.
\<close>

theorem upload_declared_type_counterexample:
  "part_content_type (example_part\<lparr>part_content_type := ''VIDEO/MP4''\<rparr>) \<noteq> ''video/mp4''
   \<and> reported_mimetype example_env ''VIDEO/MP4'' = ''video/mp4''
   \<and> objects (snd (post_upload example_env empty_bucket
         (Some (example_part\<lparr>part_content_type := ''VIDEO/MP4''\<rparr>))))
         ''00010203-0405-4607-8809-0a0b0c0d0e0f.mp4'' \<noteq> None
   \<and> status (fst (post_upload example_env empty_bucket
         (Some (example_part\<lparr>part_content_type := ''VIDEO/MP4''\<rparr>)))) = 200
   \<and> calls (snd (post_upload example_env empty_bucket
         (Some (example_part\<lparr>part_content_type := ''VIDEO/MP4''\<rparr>))))
       = [PutObject
            \<lparr>Bucket = ''videos'',
             Key = ''00010203-0405-4607-8809-0a0b0c0d0e0f.mp4'',
             Body = [0, 0, 0, 24],
             ContentType = ''video/mp4'',
             CacheControl = ''public, max-age=31536000, immutable'',
             Metadata = [(''originalname'', ''clip.mp4''),
                         (''uploadedat'', ''2026-01-01T00:00:00.000Z'')]\<rparr>]"
proof -
  let ?p = "example_part\<lparr>part_content_type := ''VIDEO/MP4''\<rparr>"
  have n: "part_filename ?p \<noteq> []"
    by (simp add: example_part_def)
  have t: "reported_mimetype example_env (part_content_type ?p) = ''video/mp4''"
    by (simp add: example_env_def media_type_def ascii_lower_def)
  have l: "length (part_data ?p) \<le> fileSize_limit"
    by (simp add: example_part_def fileSize_limit_def)
  have r: "post_upload example_env empty_bucket (Some ?p)
      = upload_handler example_env empty_bucket (Some (multer_file example_env ?p))"
    using n t l by (rule passes_middleware)
  have s: "status (fst (upload_handler example_env empty_bucket (Some (multer_file example_env ?p)))) = 200"
    by (simp add: upload_handler_def Let_def example_put_accepted)
  have c: "calls (snd (upload_handler example_env empty_bucket (Some (multer_file example_env ?p))))
       = [PutObject
            \<lparr>Bucket = ''videos'',
             Key = ''00010203-0405-4607-8809-0a0b0c0d0e0f.mp4'',
             Body = [0, 0, 0, 24],
             ContentType = ''video/mp4'',
             CacheControl = ''public, max-age=31536000, immutable'',
             Metadata = [(''originalname'', ''clip.mp4''),
                         (''uploadedat'', ''2026-01-01T00:00:00.000Z'')]\<rparr>]"
    by (simp add: upload_handler_calls example_uuid put_command_def multer_file_def metadata_name_def)
      (simp add: example_env_def example_part_def empty_bucket_def)
  have o: "objects (snd (upload_handler example_env empty_bucket (Some (multer_file example_env ?p))))
         ''00010203-0405-4607-8809-0a0b0c0d0e0f.mp4'' \<noteq> None"
    by (simp add: upload_handler_def Let_def example_uuid example_put_accepted)
  have t': "reported_mimetype example_env ''VIDEO/MP4'' = ''video/mp4''"
    using t by simp
  show ?thesis
    unfolding r using s c o t' by simp
qed

text \<open>
  Claim C5, amended. An upload whose content type, as multer reports it from the declared
  header, is not \<open>video/mp4\<close> is answered with the client error 400, and the bucket state
  is left as it was: no object is written and no S3 call is made. Where the part has a
  file name, the answer carries the filter's message.
\<close>

theorem wrong_type_rejected:
  assumes "reported_mimetype e (part_content_type part) \<noteq> ''video/mp4''"
  shows "status (fst (post_upload e st (Some part))) = 400
       \<and> snd (post_upload e st (Some part)) = st
       \<and> (part_filename part \<noteq> [] \<longrightarrow>
            body (fst (post_upload e st (Some part))) = JsonError ''Only video/mp4 allowed'')"
  using assms
  by (simp add: post_upload_def upload_single_def fileFilter_def error_middleware_def
      message_or_def new_Error_def multer_file_def upload_handler_def)

theorem wrong_type_rejected_witness:
  "reported_mimetype example_env (part_content_type (example_part\<lparr>part_content_type := ''video/webm''\<rparr>))
     \<noteq> ''video/mp4''
   \<and> part_filename (example_part\<lparr>part_content_type := ''video/webm''\<rparr>) \<noteq> []
   \<and> status (fst (post_upload example_env empty_bucket
         (Some (example_part\<lparr>part_content_type := ''video/webm''\<rparr>)))) = 400
   \<and> snd (post_upload example_env empty_bucket
         (Some (example_part\<lparr>part_content_type := ''video/webm''\<rparr>))) = empty_bucket
   \<and> body (fst (post_upload example_env empty_bucket
         (Some (example_part\<lparr>part_content_type := ''video/webm''\<rparr>))))
       = JsonError ''Only video/mp4 allowed''"
proof -
  let ?p = "example_part\<lparr>part_content_type := ''video/webm''\<rparr>"
  have m: "reported_mimetype example_env (part_content_type ?p) \<noteq> ''video/mp4''"
    by (simp add: example_env_def media_type_def ascii_lower_def)
  have n: "part_filename ?p \<noteq> []"
    by (simp add: example_part_def)
  from wrong_type_rejected [OF m, of empty_bucket] m n show ?thesis
    by blast
qed

text \<open>
  Claim C6. An upload whose body is larger than the ceiling of 250 MiB (262144000 bytes)
  is answered with the client error 400, and the bucket state is left as it was: no
  object is written. Where the part has a file name and its type was accepted, the
  answer carries multer's \<open>File too large\<close>.
\<close>

theorem oversized_rejected:
  assumes "fileSize_limit < length (part_data part)"
  shows "fileSize_limit = 262144000
       \<and> status (fst (post_upload e st (Some part))) = 400
       \<and> snd (post_upload e st (Some part)) = st
       \<and> (part_filename part \<noteq> [] \<and> reported_mimetype e (part_content_type part) = ''video/mp4'' \<longrightarrow>
            body (fst (post_upload e st (Some part))) = JsonError ''File too large'')"
  using assms
  by (simp add: post_upload_def upload_single_def fileFilter_def error_middleware_def
      message_or_def new_Error_def LIMIT_FILE_SIZE_def fileSize_limit_def multer_file_def
      upload_handler_def)

theorem oversized_rejected_witness:
  "fileSize_limit < length (part_data (example_part\<lparr>part_data := replicate 262144001 0\<rparr>))
   \<and> part_filename (example_part\<lparr>part_data := replicate 262144001 0\<rparr>) \<noteq> []
   \<and> reported_mimetype example_env
        (part_content_type (example_part\<lparr>part_data := replicate 262144001 0\<rparr>)) = ''video/mp4''
   \<and> status (fst (post_upload example_env empty_bucket
         (Some (example_part\<lparr>part_data := replicate 262144001 0\<rparr>)))) = 400
   \<and> snd (post_upload example_env empty_bucket
         (Some (example_part\<lparr>part_data := replicate 262144001 0\<rparr>))) = empty_bucket
   \<and> body (fst (post_upload example_env empty_bucket
         (Some (example_part\<lparr>part_data := replicate 262144001 0\<rparr>))))
       = JsonError ''File too large''"
proof -
  let ?p = "example_part\<lparr>part_data := replicate 262144001 0\<rparr>"
  have big: "fileSize_limit < length (part_data ?p)"
    by (simp add: fileSize_limit_def)
  have n: "part_filename ?p \<noteq> []"
    by (simp add: example_part_def)
  have mp4: "reported_mimetype example_env (part_content_type ?p) = ''video/mp4''"
    by (simp add: example_part_def example_reports_mp4)
  from oversized_rejected [OF big, of example_env empty_bucket] big n mp4 show ?thesis
    by blast
qed

subsection \<open>Upload: what is stored and what is answered\<close>

lemma strip_trailing_slashes_run:
  assumes "\<not> (\<exists>b. base = b @ ''/'')"
  shows "strip_trailing_slashes (base @ replicate n (CHR ''/'')) = base"
proof -
  have run: "dropWhile (\<lambda>c. c = CHR ''/'') (replicate n (CHR ''/'') @ rev base)
      = dropWhile (\<lambda>c. c = CHR ''/'') (rev base)"
    by (rule dropWhile_append2) simp
  have "dropWhile (\<lambda>c. c = CHR ''/'') (rev base) = rev base"
  proof (cases "rev base")
    case Nil
    then show ?thesis by simp
  next
    case (Cons c cs)
    then have "base = rev cs @ [c]" by (simp add: rev_swap)
    with assms have "c \<noteq> CHR ''/''" by auto
    with Cons show ?thesis by simp
  qed
  with run show ?thesis
    by (simp add: strip_trailing_slashes_def)
qed

lemma post_upload_cases:
  "(\<exists>req_file. post_upload e st field = upload_handler e st req_file)
   \<or> (\<exists>err. post_upload e st field = (error_middleware err, st))"
  by (auto simp add: post_upload_def upload_single_def split: option.split sum.split)

lemma post_upload_ok:
  assumes "status (fst (post_upload e st (Some part))) = 200"
  shows "part_filename part \<noteq> []
       \<and> post_upload e st (Some part) = upload_handler e st (Some (multer_file e part))"
proof (cases "part_filename part = []")
  case True
  with assms show ?thesis
    by (simp add: unnamed_part_missing_file)
next
  case False
  with assms show ?thesis
    by (auto simp add: post_upload_def upload_single_def error_middleware_def
        split: option.splits if_splits)
qed

lemma upload_handler_keys:
  "(\<forall>c \<in> set (new_calls st (snd (upload_handler e st req_file))).
       call_key c = randomUUID (random_bytes e) @ ''.mp4'')
   \<and> (\<forall>k. objects (snd (upload_handler e st req_file)) k \<noteq> objects st k \<longrightarrow>
         k = randomUUID (random_bytes e) @ ''.mp4'')
   \<and> (\<forall>i u. body (fst (upload_handler e st req_file)) = JsonUploaded i u \<longrightarrow>
         i = randomUUID (random_bytes e))"
  by (simp add: upload_handler_def Let_def new_calls_def put_command_def split: option.split)

lemma error_middleware_keys:
  "body (error_middleware err) \<noteq> JsonUploaded i u"
  by (simp add: error_middleware_def)

lemma example_route:
  "post_upload example_env st (Some example_part)
     = upload_handler example_env st (Some (multer_file example_env example_part))"
  by (rule passes_middleware)
    (simp_all add: example_part_def example_reports_mp4 fileSize_limit_def)

text \<open>
  Claim C3, as stated, fails: it says that the url of the response is the configured
  public base URL followed by \<open>/v/{id}\<close>. With the base URL \<open>https://bg.example/\<close> the
  handler answers \<open>https://bg.example/v/{id}\<close>: the trailing slash of the base URL is
  removed before the path is appended.
\<close>

theorem upload_url_counterexample:
  "part_filename example_part = ''clip.mp4''
   \<and> part_content_type example_part = ''video/mp4''
   \<and> length (part_data example_part) \<le> 250 * 1024 * 1024
   \<and> PUBLIC_BASE_URL example_env = ''https://bg.example/''
   \<and> fst (post_upload example_env empty_bucket (Some example_part))
       = \<lparr>status = 200, headers = [],
          body = JsonUploaded ''00010203-0405-4607-8809-0a0b0c0d0e0f''
                   ''https://bg.example/v/00010203-0405-4607-8809-0a0b0c0d0e0f''\<rparr>
   \<and> ''https://bg.example/v/00010203-0405-4607-8809-0a0b0c0d0e0f''
       \<noteq> PUBLIC_BASE_URL example_env @ ''/v/'' @ ''00010203-0405-4607-8809-0a0b0c0d0e0f''"
proof -
  have s: "strip_trailing_slashes (PUBLIC_BASE_URL example_env) = ''https://bg.example''"
    by (simp add: example_env_def strip_trailing_slashes_def)
  have h: "fst (upload_handler example_env empty_bucket (Some (multer_file example_env example_part)))
       = \<lparr>status = 200, headers = [],
          body = JsonUploaded ''00010203-0405-4607-8809-0a0b0c0d0e0f''
                   ''https://bg.example/v/00010203-0405-4607-8809-0a0b0c0d0e0f''\<rparr>"
    by (simp add: upload_handler_def Let_def example_uuid s example_put_accepted)
  have b: "PUBLIC_BASE_URL example_env = ''https://bg.example/''"
    by (simp add: example_env_def)
  show ?thesis
    unfolding example_route h b by (simp add: example_part_def)
qed

text \<open>
  Claim C3, amended. For every upload with a file name, of a type multer reports as
  \<open>video/mp4\<close> and of at most 250 MiB, that the store accepts, \<open>POST /upload\<close> answers 200
  with the identifier made from the 16 random bytes, which matches the Identifier Format
  Predicate, and with the url made of the public base URL without its trailing slashes,
  followed by \<open>/v/\<close> and the identifier: where the configured base URL is \<open>base\<close> followed
  by any number of slashes, and \<open>base\<close> does not end in a slash, the url is \<open>base\<close>
  followed by \<open>/v/{id}\<close>.
\<close>

theorem upload_answers_id_and_url:
  assumes "part_filename part \<noteq> []"
    and "reported_mimetype e (part_content_type part) = ''video/mp4''"
    and "length (part_data part) \<le> fileSize_limit"
    and "length (random_bytes e) = 16"
    and "s3_send_put e
           (put_command e (randomUUID (random_bytes e) @ ''.mp4'') (multer_file e part)) = None"
    and "PUBLIC_BASE_URL e = base @ replicate n (CHR ''/'')"
    and "\<not> (\<exists>b. base = b @ ''/'')"
  shows "fst (post_upload e st (Some part))
           = \<lparr>status = 200, headers = [],
              body = JsonUploaded (randomUUID (random_bytes e))
                (base @ ''/v/'' @ randomUUID (random_bytes e))\<rparr>
       \<and> identifier_format (randomUUID (random_bytes e))"
proof -
  have url: "strip_trailing_slashes (PUBLIC_BASE_URL e) = base"
    unfolding assms(6) using assms(7) by (rule strip_trailing_slashes_run)
  have "fst (upload_handler e st (Some (multer_file e part)))
           = \<lparr>status = 200, headers = [],
              body = JsonUploaded (randomUUID (random_bytes e))
                (base @ ''/v/'' @ randomUUID (random_bytes e))\<rparr>"
    using assms(5) by (simp add: upload_handler_def Let_def url)
  moreover have "identifier_format (randomUUID (random_bytes e))"
    using validId_randomUUID by (simp only: validId_iff_format)
  ultimately show ?thesis
    using assms(1-3) by (simp add: passes_middleware)
qed

theorem upload_answers_id_and_url_witness:
  "part_filename example_part \<noteq> []
   \<and> reported_mimetype example_env (part_content_type example_part) = ''video/mp4''
   \<and> length (part_data example_part) \<le> fileSize_limit
   \<and> length (random_bytes example_env) = 16
   \<and> PUBLIC_BASE_URL (example_env\<lparr>PUBLIC_BASE_URL := ''https://bg.example///''\<rparr>)
       = ''https://bg.example'' @ replicate 3 (CHR ''/'')
   \<and> \<not> (\<exists>b. ''https://bg.example'' = b @ ''/'')
   \<and> fst (post_upload (example_env\<lparr>PUBLIC_BASE_URL := ''https://bg.example///''\<rparr>)
           empty_bucket (Some example_part))
       = \<lparr>status = 200, headers = [],
          body = JsonUploaded ''00010203-0405-4607-8809-0a0b0c0d0e0f''
                   ''https://bg.example/v/00010203-0405-4607-8809-0a0b0c0d0e0f''\<rparr>
   \<and> fst (post_upload (example_env\<lparr>PUBLIC_BASE_URL := ''https://bg.example''\<rparr>)
           empty_bucket (Some example_part))
       = \<lparr>status = 200, headers = [],
          body = JsonUploaded ''00010203-0405-4607-8809-0a0b0c0d0e0f''
                   ''https://bg.example/v/00010203-0405-4607-8809-0a0b0c0d0e0f''\<rparr>
   \<and> identifier_format ''00010203-0405-4607-8809-0a0b0c0d0e0f''"
proof -
  let ?e3 = "example_env\<lparr>PUBLIC_BASE_URL := ''https://bg.example///''\<rparr>"
  let ?e0 = "example_env\<lparr>PUBLIC_BASE_URL := ''https://bg.example''\<rparr>"
  have f: "part_filename example_part \<noteq> []"
    by (simp add: example_part_def)
  have t: "reported_mimetype example_env (part_content_type example_part) = ''video/mp4''"
    by (simp add: example_part_def example_reports_mp4)
  have t3: "reported_mimetype ?e3 (part_content_type example_part) = ''video/mp4''"
    using t by simp
  have t0: "reported_mimetype ?e0 (part_content_type example_part) = ''video/mp4''"
    using t by simp
  have n: "length (part_data example_part) \<le> fileSize_limit"
    by (simp add: example_part_def fileSize_limit_def)
  have r: "length (random_bytes example_env) = 16"
    by (simp add: example_env_def)
  have r3: "length (random_bytes ?e3) = 16" and r0: "length (random_bytes ?e0) = 16"
    using r by simp_all
  have ok3: "s3_send_put ?e3
        (put_command ?e3 (randomUUID (random_bytes ?e3) @ ''.mp4'') (multer_file ?e3 example_part)) = None"
    by (simp add: example_env_def)
  have ok0: "s3_send_put ?e0
        (put_command ?e0 (randomUUID (random_bytes ?e0) @ ''.mp4'') (multer_file ?e0 example_part)) = None"
    by (simp add: example_env_def)
  have b3: "PUBLIC_BASE_URL ?e3 = ''https://bg.example'' @ replicate 3 (CHR ''/'')"
    by (simp add: numeral_eq_Suc)
  have b0: "PUBLIC_BASE_URL ?e0 = ''https://bg.example'' @ replicate 0 (CHR ''/'')"
    by simp
  have e: "\<not> (\<exists>b. ''https://bg.example'' = b @ ''/'')"
    by (simp add: append_eq_Cons_conv)
  have u3: "randomUUID (random_bytes ?e3) = ''00010203-0405-4607-8809-0a0b0c0d0e0f''"
    and u0: "randomUUID (random_bytes ?e0) = ''00010203-0405-4607-8809-0a0b0c0d0e0f''"
    using example_uuid by simp_all
  note a3 = upload_answers_id_and_url [OF f t3 n r3 ok3 b3 e, of empty_bucket]
  note a0 = upload_answers_id_and_url [OF f t0 n r0 ok0 b0 e, of empty_bucket]
  from a3 have 1: "fst (post_upload ?e3 empty_bucket (Some example_part))
       = \<lparr>status = 200, headers = [],
          body = JsonUploaded ''00010203-0405-4607-8809-0a0b0c0d0e0f''
                   ''https://bg.example/v/00010203-0405-4607-8809-0a0b0c0d0e0f''\<rparr>"
    unfolding u3 by simp
  from a0 have 2: "fst (post_upload ?e0 empty_bucket (Some example_part))
       = \<lparr>status = 200, headers = [],
          body = JsonUploaded ''00010203-0405-4607-8809-0a0b0c0d0e0f''
                   ''https://bg.example/v/00010203-0405-4607-8809-0a0b0c0d0e0f''\<rparr>"
    unfolding u0 by simp
  from a3 have 3: "identifier_format ''00010203-0405-4607-8809-0a0b0c0d0e0f''"
    unfolding u3 by simp
  from f t n r b3 e 1 2 3 show ?thesis
    by (intro conjI)
qed

text \<open>
  Claim C8. Every S3 call the upload route adds to the log addresses the key
  \<open>id + ".mp4"\<close> of the identifier it generated (the one it answers with), and that is
  the only key whose object the route changes; every S3 call the raw playback route adds
  addresses the key \<open>id + ".mp4"\<close> of the identifier in its path. Both are the one
  mapping \<open>object_key\<close>, which sends different identifiers to different keys.
\<close>

theorem store_keys_follow_one_mapping:
  "(\<forall>c \<in> set (new_calls st (snd (post_upload e st field))).
       call_key c = object_key (randomUUID (random_bytes e)))
   \<and> (\<forall>k. objects (snd (post_upload e st field)) k \<noteq> objects st k \<longrightarrow>
         k = object_key (randomUUID (random_bytes e)))
   \<and> (\<forall>i u. body (fst (post_upload e st field)) = JsonUploaded i u \<longrightarrow>
         i = randomUUID (random_bytes e))
   \<and> (\<forall>c \<in> set (new_calls st (snd (get_raw e st ident))). call_key c = object_key ident)
   \<and> (\<forall>a b. object_key a = object_key b \<longrightarrow> a = b)"
proof -
  have up: "(\<forall>c \<in> set (new_calls st (snd (post_upload e st field))).
       call_key c = randomUUID (random_bytes e) @ ''.mp4'')
   \<and> (\<forall>k. objects (snd (post_upload e st field)) k \<noteq> objects st k \<longrightarrow>
         k = randomUUID (random_bytes e) @ ''.mp4'')
   \<and> (\<forall>i u. body (fst (post_upload e st field)) = JsonUploaded i u \<longrightarrow>
         i = randomUUID (random_bytes e))"
    using post_upload_cases [of e st field]
  proof
    assume "\<exists>req_file. post_upload e st field = upload_handler e st req_file"
    then obtain req_file where "post_upload e st field = upload_handler e st req_file" ..
    with upload_handler_keys [of st e req_file] show ?thesis by simp
  next
    assume "\<exists>err. post_upload e st field = (error_middleware err, st)"
    then show ?thesis by (auto simp add: new_calls_def error_middleware_keys)
  qed
  have raw: "\<forall>c \<in> set (new_calls st (snd (get_raw e st ident))). call_key c = ident @ ''.mp4''"
    by (simp add: get_raw_def Let_def new_calls_def split: sum.split)
  from up raw show ?thesis
    by (simp add: object_key_def)
qed

theorem store_keys_follow_one_mapping_witness:
  "new_calls empty_bucket (snd (post_upload example_env empty_bucket (Some example_part)))
     = [PutObject (put_command example_env ''00010203-0405-4607-8809-0a0b0c0d0e0f.mp4''
          (multer_file example_env example_part))]
   \<and> call_key (PutObject (put_command example_env ''00010203-0405-4607-8809-0a0b0c0d0e0f.mp4''
          (multer_file example_env example_part)))
       = object_key ''00010203-0405-4607-8809-0a0b0c0d0e0f''
   \<and> objects (snd (post_upload example_env empty_bucket (Some example_part)))
        ''00010203-0405-4607-8809-0a0b0c0d0e0f.mp4'' \<noteq> objects empty_bucket ''00010203-0405-4607-8809-0a0b0c0d0e0f.mp4''
   \<and> new_calls empty_bucket (snd (get_raw example_env empty_bucket ''00010203-0405-4607-8809-0a0b0c0d0e0f''))
       = [PresignGetObject ''videos'' ''00010203-0405-4607-8809-0a0b0c0d0e0f.mp4'' 600]
   \<and> call_key (PresignGetObject ''videos'' ''00010203-0405-4607-8809-0a0b0c0d0e0f.mp4'' 600)
       = object_key ''00010203-0405-4607-8809-0a0b0c0d0e0f''"
proof -
  let ?i = "''00010203-0405-4607-8809-0a0b0c0d0e0f''"
  let ?k = "''00010203-0405-4607-8809-0a0b0c0d0e0f.mp4''"
  let ?f = "multer_file example_env example_part"
  have 1: "new_calls empty_bucket (snd (post_upload example_env empty_bucket (Some example_part)))
     = [PutObject (put_command example_env ?k ?f)]"
    unfolding example_route
    by (simp add: upload_handler_def Let_def example_uuid example_put_accepted new_calls_def
        empty_bucket_def)
  have 3: "objects (snd (post_upload example_env empty_bucket (Some example_part))) ?k
       \<noteq> objects empty_bucket ?k"
    unfolding example_route
    by (simp add: upload_handler_def Let_def example_uuid example_put_accepted empty_bucket_def)
  have v: "validId ?i"
    by (simp add: validId_def id_class_def)
  have 4: "new_calls empty_bucket (snd (get_raw example_env empty_bucket ?i))
       = [PresignGetObject ''videos'' ?k 600]"
    using v by (simp add: get_raw_def Let_def new_calls_def empty_bucket_def example_env_def)
  note t = store_keys_follow_one_mapping [of empty_bucket example_env "Some example_part" ?i]
  from t have "\<forall>c \<in> set (new_calls empty_bucket (snd (post_upload example_env empty_bucket (Some example_part)))).
       call_key c = object_key (randomUUID (random_bytes example_env))"
    by (rule conjunct1)
  then have 2: "call_key (PutObject (put_command example_env ?k ?f)) = object_key ?i"
    unfolding 1 example_uuid by simp
  from t have "\<forall>c \<in> set (new_calls empty_bucket (snd (get_raw example_env empty_bucket ?i))).
      call_key c = object_key ?i"
    by blast
  then have 5: "call_key (PresignGetObject ''videos'' ?k 600) = object_key ?i"
    unfolding 4 by simp
  from 1 2 3 4 5 show ?thesis
    by (intro conjI)
qed

text \<open>
  Claim C9. Every successful upload issues one put, with content type \<open>video/mp4\<close>, the
  cache-control header \<open>public, max-age=31536000, immutable\<close>, and the metadata
  \<open>originalname\<close>, the uploaded file name cut to 200 characters, and \<open>uploadedat\<close>, the
  clock's ISO rendering at the time of the call. The default name of line 64 is never
  stored through the route: a part without a file name gets no file object, and the
  handler answers 400 before it builds the put.
\<close>

theorem upload_put_command:
  assumes "status (fst (post_upload e st (Some part))) = 200"
  shows "calls (snd (post_upload e st (Some part)))
           = calls st @
             [PutObject
               \<lparr>Bucket = S3_BUCKET e,
                Key = randomUUID (random_bytes e) @ ''.mp4'',
                Body = part_data part,
                ContentType = ''video/mp4'',
                CacheControl = ''public, max-age=31536000, immutable'',
                Metadata =
                  [(''originalname'', take 200 (part_filename part)),
                   (''uploadedat'', now_iso e)]\<rparr>]"
proof -
  from assms have named: "part_filename part \<noteq> []"
    and route: "post_upload e st (Some part) = upload_handler e st (Some (multer_file e part))"
    using post_upload_ok [of e st part] by simp_all
  from named show ?thesis
    unfolding route
    by (simp add: upload_handler_calls put_command_def metadata_name_def multer_file_def)
qed

theorem upload_put_command_witness:
  "status (fst (post_upload example_env empty_bucket (Some example_part))) = 200
   \<and> calls (snd (post_upload example_env empty_bucket (Some example_part)))
       = [PutObject
               \<lparr>Bucket = ''videos'',
                Key = ''00010203-0405-4607-8809-0a0b0c0d0e0f.mp4'',
                Body = [0, 0, 0, 24],
                ContentType = ''video/mp4'',
                CacheControl = ''public, max-age=31536000, immutable'',
                Metadata = [(''originalname'', ''clip.mp4''),
                            (''uploadedat'', ''2026-01-01T00:00:00.000Z'')]\<rparr>]
   \<and> status (fst (post_upload example_env empty_bucket
         (Some (example_part\<lparr>part_filename := replicate 201 (CHR ''a'')\<rparr>)))) = 200
   \<and> calls (snd (post_upload example_env empty_bucket
         (Some (example_part\<lparr>part_filename := replicate 201 (CHR ''a'')\<rparr>))))
       = [PutObject
               \<lparr>Bucket = ''videos'',
                Key = ''00010203-0405-4607-8809-0a0b0c0d0e0f.mp4'',
                Body = [0, 0, 0, 24],
                ContentType = ''video/mp4'',
                CacheControl = ''public, max-age=31536000, immutable'',
                Metadata = [(''originalname'', replicate 200 (CHR ''a'')),
                            (''uploadedat'', ''2026-01-01T00:00:00.000Z'')]\<rparr>]"
proof -
  let ?long = "example_part\<lparr>part_filename := replicate 201 (CHR ''a'')\<rparr>"
  have s: "status (fst (post_upload example_env empty_bucket (Some example_part))) = 200"
    unfolding example_route by (simp add: upload_handler_def Let_def example_put_accepted)
  have route: "post_upload example_env empty_bucket (Some ?long)
      = upload_handler example_env empty_bucket (Some (multer_file example_env ?long))"
    by (rule passes_middleware)
      (simp_all add: example_part_def example_reports_mp4 fileSize_limit_def)
  have s': "status (fst (post_upload example_env empty_bucket (Some ?long))) = 200"
    unfolding route by (simp add: upload_handler_def Let_def example_put_accepted)
  from upload_put_command [OF s]
  have 1: "calls (snd (post_upload example_env empty_bucket (Some example_part)))
       = [PutObject
               \<lparr>Bucket = ''videos'',
                Key = ''00010203-0405-4607-8809-0a0b0c0d0e0f.mp4'',
                Body = [0, 0, 0, 24],
                ContentType = ''video/mp4'',
                CacheControl = ''public, max-age=31536000, immutable'',
                Metadata = [(''originalname'', ''clip.mp4''),
                            (''uploadedat'', ''2026-01-01T00:00:00.000Z'')]\<rparr>]"
    by (simp add: example_uuid) (simp add: example_env_def example_part_def empty_bucket_def)
  from upload_put_command [OF s']
  have 2: "calls (snd (post_upload example_env empty_bucket (Some ?long)))
       = [PutObject
               \<lparr>Bucket = ''videos'',
                Key = ''00010203-0405-4607-8809-0a0b0c0d0e0f.mp4'',
                Body = [0, 0, 0, 24],
                ContentType = ''video/mp4'',
                CacheControl = ''public, max-age=31536000, immutable'',
                Metadata = [(''originalname'', replicate 200 (CHR ''a'')),
                            (''uploadedat'', ''2026-01-01T00:00:00.000Z'')]\<rparr>]"
    by (simp add: example_uuid) (simp add: example_env_def example_part_def empty_bucket_def)
  from s 1 s' 2 show ?thesis
    by (intro conjI)
qed

end
